theory Spec2Isabelle
  imports Main "HOL-Library.Sublist"
begin

section \<open>Go values used by the provisioner API\<close>

text \<open>
  A Go slice is either \<open>nil\<close> or a (possibly empty) sequence of elements; the two are
  told apart by \<open>== nil\<close> but both have length \<open>0\<close>. A slice is modelled as an optional
  list: \<open>None\<close> is the nil slice, \<open>Some xs\<close> a non-nil slice holding \<open>xs\<close>.
  A \<open>*string\<close> is a \<open>string option\<close> (\<open>None\<close> is the nil pointer), and a
  \<open>map[string]string\<close> is a partial function: the two-result lookup \<open>v, ok := m[k]\<close>
  is \<open>m k\<close>, which also covers a nil map (every lookup misses).
\<close>

type_synonym 'a slice = "'a list option"

definition len :: "'a slice \<Rightarrow> nat" where
  "len s = (case s of None \<Rightarrow> 0 | Some xs \<Rightarrow> length xs)"

subsection \<open>Pods\<close>

text \<open>
  Of \<open>v1.Pod\<close> the resolver reads \<open>pod.Spec.NodeSelector\<close> only. Both records are
  extensible, so a statement over \<open>('s, 'p) Pod_scheme\<close> holds for pods carrying any
  further content in \<open>Spec\<close> or beside it.
\<close>

record PodSpec =
  NodeSelector :: "string \<rightharpoonup> string"

record 's Pod =
  Spec :: "'s PodSpec_scheme"

subsection \<open>Constraints\<close>

text \<open>
  \<open>type Constraints struct\<close> of \<open>provisioner.go\<close>. The element type of \<open>Taints\<close>,
  \<open>v1.Taint\<close>, is declared outside the repository and is a type parameter here.
\<close>

record 't Constraints =
  Taints :: "'t slice"
  Labels :: "string \<rightharpoonup> string"
  Zones :: "string slice"
  InstanceTypes :: "string slice"
  Architecture :: "string option"
  OperatingSystem :: "string option"

definition ArchitectureAmd64 :: string where
  "ArchitectureAmd64 = ''amd64''"

definition ArchitectureArm64 :: string where
  "ArchitectureArm64 = ''arm64''"

definition OperatingSystemLinux :: string where
  "OperatingSystemLinux = ''linux''"

definition ArchitectureLabelKey :: string where
  "ArchitectureLabelKey = ''kubernetes.io/arch''"

definition OperatingSystemLabelKey :: string where
  "OperatingSystemLabelKey = ''kubernetes.io/os''"

definition ZoneLabelKey :: string where
  "ZoneLabelKey = ''topology.kubernetes.io/zone''"

definition InstanceTypeLabelKey :: string where
  "InstanceTypeLabelKey = ''node.kubernetes.io/instance-type''"

section \<open>Constraint resolution\<close>

text \<open>
  The four getters of \<open>provisioner.go\<close>, each with the source's order of tests:
  the pod's node selector first, then the provisioner's own constraint, then the
  built-in default. The receiver \<open>c\<close> and the pod are the values the source's two
  pointers point to: the functions are modelled for calls in which both are present (on
  a nil pointer the source panics at its first field access).
\<close>

definition getZones :: "('t, 'c) Constraints_scheme \<Rightarrow> ('s, 'p) Pod_scheme \<Rightarrow> string slice" where
  "getZones c pod =
     (case NodeSelector (Pod.Spec pod) ZoneLabelKey of
        Some zone \<Rightarrow> Some [zone]
      | None \<Rightarrow> if len (Zones c) \<noteq> 0 then Zones c else None)"

definition getInstanceTypes :: "('t, 'c) Constraints_scheme \<Rightarrow> ('s, 'p) Pod_scheme \<Rightarrow> string slice" where
  "getInstanceTypes c pod =
     (case NodeSelector (Pod.Spec pod) InstanceTypeLabelKey of
        Some instanceType \<Rightarrow> Some [instanceType]
      | None \<Rightarrow> if len (InstanceTypes c) \<noteq> 0 then InstanceTypes c else None)"

definition getArchitecture :: "('t, 'c) Constraints_scheme \<Rightarrow> ('s, 'p) Pod_scheme \<Rightarrow> string option" where
  "getArchitecture c pod =
     (case NodeSelector (Pod.Spec pod) ArchitectureLabelKey of
        Some architecture \<Rightarrow> Some architecture
      | None \<Rightarrow> if Architecture c \<noteq> None then Architecture c else Some ArchitectureAmd64)"

definition getOperatingSystem :: "('t, 'c) Constraints_scheme \<Rightarrow> ('s, 'p) Pod_scheme \<Rightarrow> string option" where
  "getOperatingSystem c pod =
     (case NodeSelector (Pod.Spec pod) OperatingSystemLabelKey of
        Some operatingSystem \<Rightarrow> Some operatingSystem
      | None \<Rightarrow> if OperatingSystem c \<noteq> None then OperatingSystem c else Some OperatingSystemLinux)"

text \<open>
  \<open>WithOverrides\<close> builds a fresh \<open>Constraints\<close>. The label merge
  \<open>functional.UnionStringMaps\<close> belongs to another package, whose source is not
  at hand; it is the first argument, so every statement below holds for any merge
  function.
\<close>

definition WithOverrides ::
  "((string \<rightharpoonup> string) \<Rightarrow> (string \<rightharpoonup> string) \<Rightarrow> (string \<rightharpoonup> string)) \<Rightarrow>
   ('t, 'c) Constraints_scheme \<Rightarrow> ('s, 'p) Pod_scheme \<Rightarrow> 't Constraints" where
  "WithOverrides UnionStringMaps c pod =
     \<lparr> Taints = Taints c,
       Labels = UnionStringMaps (Labels c) (NodeSelector (Pod.Spec pod)),
       Zones = getZones c pod,
       InstanceTypes = getInstanceTypes c pod,
       Architecture = getArchitecture c pod,
       OperatingSystem = getOperatingSystem c pod \<rparr>"

section \<open>The reallocation controller\<close>

subsection \<open>The provisioner resource\<close>

text \<open>
  \<open>Cluster\<close>, \<open>ProvisionerSpec\<close> and \<open>Provisioner\<close> of \<open>provisioner.go\<close>. The
  \<open>*int64\<close> time-to-live fields are optional integers (seconds). Of the embedded
  \<open>metav1.ObjectMeta\<close> only \<open>Name\<close> is kept; \<open>TypeMeta\<close>, the rest of
  \<open>ObjectMeta\<close> and \<open>Status\<close>, declared elsewhere, are left to the record's extension.
\<close>

record Cluster =
  Endpoint :: string
  CABundle :: "string option"
  Name :: "string option"

record 't ProvisionerSpec =
  Cluster :: Cluster
  Constraints :: "'t Constraints"
  TTLSecondsAfterEmpty :: "int option"
  TTLSecondsUntilExpired :: "int option"

record 't Provisioner =
  Name :: string
  Spec :: "'t ProvisionerSpec"

subsection \<open>Requests, results and errors\<close>

text \<open>
  \<open>reconcile.Request\<close> and \<open>reconcile.Result\<close> of controller-runtime. A
  \<open>time.Duration\<close> is a count of nanoseconds; \<open>5 * time.Second\<close> is far from the
  64-bit bound, so durations are plain integers.
\<close>

record NamespacedName =
  Namespace :: string
  Name :: string

record Request =
  NamespacedName :: NamespacedName

record Result =
  Requeue :: bool
  RequeueAfter :: int

definition Second :: int where
  "Second = 1000000000"

definition Result_zero :: Result where
  "Result_zero = \<lparr> Requeue = False, RequeueAfter = 0 \<rparr>"

text \<open>
  A Go \<open>error\<close> is either an error value produced by a collaborator (of some type
  \<open>'e\<close>) or the result of \<open>fmt.Errorf(msg + "%w", err)\<close>, which wraps \<open>err\<close>:
  its message is \<open>msg\<close> followed by the message of \<open>err\<close>, and unwrapping it
  gives \<open>err\<close> back. \<open>WrapError msg err\<close> keeps both parts. A nil \<open>error\<close> is
  \<open>None\<close> of \<open>'e error option\<close>.
\<close>

datatype 'e error = Err 'e | WrapError string "'e error"

definition Errorf :: "string \<Rightarrow> 'e error \<Rightarrow> 'e error" where
  "Errorf msg err = WrapError msg err"

fun is_wrapped :: "'e error \<Rightarrow> bool" where
  "is_wrapped (WrapError msg err) = True"
| "is_wrapped (Err e) = False"

subsection \<open>The controller and its collaborators\<close>

text \<open>
  \<open>Reconcile\<close> calls four methods of \<open>Utilization\<close>, whose source is not at hand,
  and \<open>KubeClient.Get\<close> of controller-runtime. They act on the
  cluster's object store, a state of some type \<open>'w\<close> that is passed through the cycle:
  each lifecycle method takes the provisioner and the state and returns its error
  (\<open>None\<close> for nil) with the state it leaves behind; \<open>Get\<close> reads the state and
  returns the provisioner or an error. The records below hold these behaviours, so
  that \<open>Reconcile\<close> is defined for any implementation of them. \<open>CloudProvider\<close> is
  not used by \<open>Reconcile\<close>. The logger placed in \<open>ctx\<close> has no part in the result.
\<close>

record ('w, 'e, 'p) Utilization =
  terminateFailedToJoin :: "'p \<Rightarrow> 'w \<Rightarrow> 'e error option \<times> 'w"
  markUnderutilized :: "'p \<Rightarrow> 'w \<Rightarrow> 'e error option \<times> 'w"
  clearUnderutilized :: "'p \<Rightarrow> 'w \<Rightarrow> 'e error option \<times> 'w"
  terminateExpired :: "'p \<Rightarrow> 'w \<Rightarrow> 'e error option \<times> 'w"

record ('w, 'e, 'p) Controller =
  Utilization :: "('w, 'e, 'p) Utilization"
  KubeClient_Get :: "'w \<Rightarrow> NamespacedName \<Rightarrow> 'e error + 'p"

text \<open>
  \<open>Controller.Reconcile\<close>. \<open>errors.IsNotFound\<close> of the Kubernetes API machinery is
  the first argument. The value is the pair the source returns, with the state of the
  object store at the return.
\<close>

definition Reconcile ::
  "('e error \<Rightarrow> bool) \<Rightarrow> ('w, 'e, ('t, 'x) Provisioner_scheme) Controller \<Rightarrow> Request \<Rightarrow> 'w \<Rightarrow>
   (Result \<times> 'e error option) \<times> 'w" where
  "Reconcile IsNotFound c req w =
     (case KubeClient_Get c w (NamespacedName req) of
        Inl err \<Rightarrow>
          if IsNotFound err then ((Result_zero, None), w)
          else ((Result_zero, Some err), w)
      | Inr provisioner \<Rightarrow>
          (case terminateFailedToJoin (Utilization c) provisioner w of
             (Some err, w1) \<Rightarrow>
               ((Result_zero, Some (Errorf ''terminating nodes that failed to join, '' err)), w1)
           | (None, w1) \<Rightarrow>
               if TTLSecondsAfterEmpty (Provisioner.Spec provisioner) = None
               then ((Result_zero, None), w1)
               else
                 (case markUnderutilized (Utilization c) provisioner w1 of
                    (Some err, w2) \<Rightarrow>
                      ((Result_zero, Some (Errorf ''adding ttl and underutilized label, '' err)), w2)
                  | (None, w2) \<Rightarrow>
                      (case clearUnderutilized (Utilization c) provisioner w2 of
                         (Some err, w3) \<Rightarrow>
                           ((Result_zero, Some (Errorf ''removing ttl from node, '' err)), w3)
                       | (None, w3) \<Rightarrow>
                           (case terminateExpired (Utilization c) provisioner w3 of
                              (Some err, w4) \<Rightarrow>
                                ((Result_zero, Some (Errorf ''marking nodes terminable, '' err)), w4)
                            | (None, w4) \<Rightarrow>
                                ((\<lparr> Requeue = False, RequeueAfter = 5 * Second \<rparr>, None), w4))))))"

subsection \<open>Observing which lifecycle methods a cycle invokes\<close>

text \<open>
  To speak about the methods a cycle invokes, and their order, a controller is wrapped:
  \<open>traced c\<close> behaves as \<open>c\<close> on the object store and keeps, beside it, the list of
  the lifecycle methods called so far, each method appending its own name when it is
  called. \<open>invoked\<close> is the list one cycle of \<open>Reconcile\<close> leaves, starting from the
  empty list.
\<close>

datatype stage = TerminateFailedToJoin | MarkUnderutilized | ClearUnderutilized | TerminateExpired

definition traced_stage ::
  "stage \<Rightarrow> ('p \<Rightarrow> 'w \<Rightarrow> 'e error option \<times> 'w) \<Rightarrow>
   'p \<Rightarrow> stage list \<times> 'w \<Rightarrow> 'e error option \<times> (stage list \<times> 'w)" where
  "traced_stage s f p tw =
     (case f p (snd tw) of (err, w') \<Rightarrow> (err, (fst tw @ [s], w')))"

definition traced :: "('w, 'e, 'p) Controller \<Rightarrow> (stage list \<times> 'w, 'e, 'p) Controller" where
  "traced c =
     \<lparr> Utilization =
         \<lparr> terminateFailedToJoin =
             traced_stage TerminateFailedToJoin (terminateFailedToJoin (Utilization c)),
           markUnderutilized =
             traced_stage MarkUnderutilized (markUnderutilized (Utilization c)),
           clearUnderutilized =
             traced_stage ClearUnderutilized (clearUnderutilized (Utilization c)),
           terminateExpired =
             traced_stage TerminateExpired (terminateExpired (Utilization c)) \<rparr>,
       KubeClient_Get = (\<lambda>tw name. KubeClient_Get c (snd tw) name) \<rparr>"

definition invoked ::
  "('e error \<Rightarrow> bool) \<Rightarrow> ('w, 'e, ('t, 'x) Provisioner_scheme) Controller \<Rightarrow> Request \<Rightarrow> 'w \<Rightarrow>
   stage list" where
  "invoked IsNotFound c req w = fst (snd (Reconcile IsNotFound (traced c) req ([], w)))"

subsection \<open>A cluster for the lifecycle methods\<close>

text \<open>
  Modelled from the spec: the Node object, whose handling lies in the missing
  \<open>Utilization\<close> source. A node's owner is the value of its ownership label; its
  reclaim-after-empty marker (label and timestamp annotation, always together) is the
  optional time at which it was first seen empty; \<open>Workloads\<close> counts its non-system
  workloads. Times are in seconds.
\<close>

record Node =
  NodeName :: string
  Owner :: string
  CreationTimestamp :: int
  Ready :: bool
  EmptySince :: "int option"
  Workloads :: nat

text \<open>
  Modelled from the spec: the shared object store that the missing \<open>Utilization\<close>
  source reads and writes, as the provisioners, the nodes and the wall clock.
\<close>

record 't ClusterState =
  Provisioners :: "'t Provisioner list"
  Nodes :: "Node list"
  Now :: int

text \<open>
  Two reasons for an error of the object store, and \<open>errors.IsNotFound\<close> of the
  Kubernetes API machinery on them: it looks through wrapping for the not-found reason.
\<close>

datatype api_error = NotFound | Unavailable

fun IsNotFound_api :: "api_error error \<Rightarrow> bool" where
  "IsNotFound_api (Err e) = (e = NotFound)"
| "IsNotFound_api (WrapError msg err) = IsNotFound_api err"

text \<open>
  Modelled from the spec: ownership of a node, which the missing \<open>Utilization\<close> source
  decides: the node carries the ownership label with the provisioner's name.
\<close>

definition owned :: "('t, 'x) Provisioner_scheme \<Rightarrow> Node \<Rightarrow> bool" where
  "owned provisioner n = (Owner n = Provisioner.Name provisioner)"

text \<open>
  Modelled from the spec: the fetch of a Provisioner by name from the object store
  (\<open>KubeClient.Get\<close> against the cluster above), which reports not-found when no
  provisioner of that name exists.
\<close>

definition Get_spec :: "'t ClusterState \<Rightarrow> NamespacedName \<Rightarrow> api_error error + 't Provisioner" where
  "Get_spec cs name =
     (case find (\<lambda>p. Provisioner.Name p = NamespacedName.Name name) (Provisioners cs) of
        None \<Rightarrow> Inl (Err NotFound)
      | Some p \<Rightarrow> Inr p)"

text \<open>
  Modelled from the spec: \<open>Utilization.terminateFailedToJoin\<close>, whose source is missing.
  An owned node that has exceeded the join grace period without reaching the ready
  state is deleted. The grace period, which the design leaves open, is a parameter;
  graceful termination is the removal of the node from the store.
\<close>

definition terminateFailedToJoin_spec ::
  "int \<Rightarrow> ('t, 'x) Provisioner_scheme \<Rightarrow> 't ClusterState \<Rightarrow> api_error error option \<times> 't ClusterState" where
  "terminateFailedToJoin_spec grace provisioner cs =
     (None, cs\<lparr> Nodes :=
        filter (\<lambda>n. \<not> (owned provisioner n \<and> \<not> Ready n \<and> Now cs - CreationTimestamp n > grace))
          (Nodes cs) \<rparr>)"

text \<open>
  Modelled from the spec: \<open>Utilization.markUnderutilized\<close>, whose source is missing.
  Every owned node with no non-system workload and no marker gets the marker, with the
  current time.
\<close>

definition markUnderutilized_spec ::
  "('t, 'x) Provisioner_scheme \<Rightarrow> 't ClusterState \<Rightarrow> api_error error option \<times> 't ClusterState" where
  "markUnderutilized_spec provisioner cs =
     (None, cs\<lparr> Nodes :=
        map (\<lambda>n. if owned provisioner n \<and> Workloads n = 0 \<and> EmptySince n = None
                 then n\<lparr> EmptySince := Some (Now cs) \<rparr> else n)
          (Nodes cs) \<rparr>)"

text \<open>
  Modelled from the spec: \<open>Utilization.clearUnderutilized\<close>, whose source is missing.
  Every owned node that carries the marker and has a non-system workload loses the
  marker.
\<close>

definition clearUnderutilized_spec ::
  "('t, 'x) Provisioner_scheme \<Rightarrow> 't ClusterState \<Rightarrow> api_error error option \<times> 't ClusterState" where
  "clearUnderutilized_spec provisioner cs =
     (None, cs\<lparr> Nodes :=
        map (\<lambda>n. if owned provisioner n \<and> EmptySince n \<noteq> None \<and> 0 < Workloads n
                 then n\<lparr> EmptySince := None \<rparr> else n)
          (Nodes cs) \<rparr>)"

text \<open>
  Modelled from the spec: the two expiry tests of \<open>Utilization.terminateExpired\<close>,
  whose source is missing. The empty time-to-live has expired when the marker is present
  and at least \<open>ttlSecondsAfterEmpty\<close> old; the age time-to-live has expired when
  \<open>ttlSecondsUntilExpired\<close> is defined and the node is at least that old.
\<close>

definition emptyTTLExpired :: "('t, 'x) Provisioner_scheme \<Rightarrow> int \<Rightarrow> Node \<Rightarrow> bool" where
  "emptyTTLExpired provisioner now n =
     (case (EmptySince n, TTLSecondsAfterEmpty (Provisioner.Spec provisioner)) of
        (Some t, Some ttl) \<Rightarrow> now - t \<ge> ttl
      | _ \<Rightarrow> False)"

definition ageTTLExpired :: "('t, 'x) Provisioner_scheme \<Rightarrow> int \<Rightarrow> Node \<Rightarrow> bool" where
  "ageTTLExpired provisioner now n =
     (case TTLSecondsUntilExpired (Provisioner.Spec provisioner) of
        Some ttl \<Rightarrow> now - CreationTimestamp n \<ge> ttl
      | None \<Rightarrow> False)"

text \<open>
  Modelled from the spec: \<open>Utilization.terminateExpired\<close>, whose source is missing.
  An owned node is deleted when either of its time-to-live tests holds.
\<close>

definition terminateExpired_spec ::
  "('t, 'x) Provisioner_scheme \<Rightarrow> 't ClusterState \<Rightarrow> api_error error option \<times> 't ClusterState" where
  "terminateExpired_spec provisioner cs =
     (None, cs\<lparr> Nodes :=
        filter (\<lambda>n. \<not> (owned provisioner n \<and>
                       (emptyTTLExpired provisioner (Now cs) n \<or> ageTTLExpired provisioner (Now cs) n)))
          (Nodes cs) \<rparr>)"

text \<open>
  Modelled from the spec: a controller made of the fetch and the four lifecycle methods
  above, standing for the missing \<open>Utilization\<close> source; its argument is the join
  grace period.
\<close>

definition Controller_spec :: "int \<Rightarrow> ('t ClusterState, api_error, 't Provisioner) Controller" where
  "Controller_spec grace =
     \<lparr> Utilization =
         \<lparr> terminateFailedToJoin = terminateFailedToJoin_spec grace,
           markUnderutilized = markUnderutilized_spec,
           clearUnderutilized = clearUnderutilized_spec,
           terminateExpired = terminateExpired_spec \<rparr>,
       KubeClient_Get = Get_spec \<rparr>"

section \<open>Example inputs\<close>

text \<open>Concrete constraints, pods, provisioners and controllers on which the results are evaluated.\<close>

definition example_constraints :: "string Constraints" where
  "example_constraints =
     \<lparr> Taints = Some [''dedicated=gpu:NoSchedule''],
       Labels = [''team'' \<mapsto> ''ml''],
       Zones = Some [''us-east-1a'', ''us-east-1b''],
       InstanceTypes = Some [''t3.micro''],
       Architecture = Some ''amd64'',
       OperatingSystem = Some ''linux'' \<rparr>"

definition example_pod :: "unit Pod" where
  "example_pod =
     \<lparr> Pod.Spec = \<lparr> NodeSelector =
         [ZoneLabelKey \<mapsto> ''us-west-2a'', InstanceTypeLabelKey \<mapsto> ''m5.large'',
          ArchitectureLabelKey \<mapsto> ''arm64'', OperatingSystemLabelKey \<mapsto> ''windows''] \<rparr> \<rparr>"

definition unconfigured_constraints :: "string Constraints" where
  "unconfigured_constraints =
     \<lparr> Taints = None, Labels = Map.empty, Zones = None, InstanceTypes = Some [],
       Architecture = None, OperatingSystem = None \<rparr>"

definition plain_pod :: "unit Pod" where
  "plain_pod = \<lparr> Pod.Spec = \<lparr> NodeSelector = [''team'' \<mapsto> ''ml''] \<rparr> \<rparr>"

definition example_provisioner :: "int option \<Rightarrow> int option \<Rightarrow> string Provisioner" where
  "example_provisioner ttlAfterEmpty ttlUntilExpired =
     \<lparr> Provisioner.Name = ''default'',
       Provisioner.Spec =
         \<lparr> Cluster = \<lparr> Endpoint = ''https://cluster.example'', CABundle = None, Cluster.Name = None \<rparr>,
           Constraints = example_constraints,
           TTLSecondsAfterEmpty = ttlAfterEmpty,
           TTLSecondsUntilExpired = ttlUntilExpired \<rparr> \<rparr>"

definition example_request :: Request where
  "example_request =
     \<lparr> NamespacedName = \<lparr> Namespace = ''karpenter'', NamespacedName.Name = ''default'' \<rparr> \<rparr>"

text \<open>
  A controller whose fetch and lifecycle methods return prescribed outcomes; its object
  store is a counter that every lifecycle method increments.
\<close>

definition scripted ::
  "(api_error error + string Provisioner) \<Rightarrow> api_error error option \<Rightarrow> api_error error option \<Rightarrow>
   api_error error option \<Rightarrow> api_error error option \<Rightarrow> (nat, api_error, string Provisioner) Controller" where
  "scripted fetched failedToJoin mark clear expired =
     \<lparr> Utilization =
         \<lparr> terminateFailedToJoin = (\<lambda>p w. (failedToJoin, Suc w)),
           markUnderutilized = (\<lambda>p w. (mark, Suc w)),
           clearUnderutilized = (\<lambda>p w. (clear, Suc w)),
           terminateExpired = (\<lambda>p w. (expired, Suc w)) \<rparr>,
       KubeClient_Get = (\<lambda>w name. fetched) \<rparr>"

text \<open>
  A cluster with one provisioner, which defines \<open>ttlSecondsUntilExpired = 60\<close> and no
  \<open>ttlSecondsAfterEmpty\<close>, and one ready, occupied node it owns, created 1000 seconds ago.
\<close>

definition old_node :: Node where
  "old_node =
     \<lparr> NodeName = ''node-1'', Owner = ''default'', CreationTimestamp = 0, Ready = True,
       EmptySince = None, Workloads = 1 \<rparr>"

definition example_cluster :: "string ClusterState" where
  "example_cluster =
     \<lparr> Provisioners = [example_provisioner None (Some 60)], Nodes = [old_node], Now = 1000 \<rparr>"

section \<open>Properties of constraint resolution\<close>

lemmas label_keys =
  ZoneLabelKey_def InstanceTypeLabelKey_def ArchitectureLabelKey_def OperatingSystemLabelKey_def

lemmas getters =
  WithOverrides_def getZones_def getInstanceTypes_def getArchitecture_def getOperatingSystem_def

text \<open>
  Claim C1. For each of the four dimensions (zone, instance type, architecture, operating
  system): when the pod's node selector holds a value under the dimension's well-known
  key, the result of \<open>WithOverrides\<close> carries exactly that value for the dimension,
  whatever the provisioner's constraints \<open>c\<close> configure.
\<close>

theorem WithOverrides_selector_wins:
  "(NodeSelector (Pod.Spec pod) ZoneLabelKey = Some zone \<longrightarrow>
      Zones (WithOverrides U c pod) = Some [zone]) \<and>
   (NodeSelector (Pod.Spec pod) InstanceTypeLabelKey = Some instanceType \<longrightarrow>
      InstanceTypes (WithOverrides U c pod) = Some [instanceType]) \<and>
   (NodeSelector (Pod.Spec pod) ArchitectureLabelKey = Some architecture \<longrightarrow>
      Architecture (WithOverrides U c pod) = Some architecture) \<and>
   (NodeSelector (Pod.Spec pod) OperatingSystemLabelKey = Some operatingSystem \<longrightarrow>
      OperatingSystem (WithOverrides U c pod) = Some operatingSystem)"
  by (simp add: getters)

theorem WithOverrides_selector_wins_witness:
  "NodeSelector (Pod.Spec example_pod) ZoneLabelKey = Some ''us-west-2a'' \<and>
   Zones (WithOverrides (++) example_constraints example_pod) = Some [''us-west-2a''] \<and>
   NodeSelector (Pod.Spec example_pod) InstanceTypeLabelKey = Some ''m5.large'' \<and>
   InstanceTypes (WithOverrides (++) example_constraints example_pod) = Some [''m5.large''] \<and>
   NodeSelector (Pod.Spec example_pod) ArchitectureLabelKey = Some ''arm64'' \<and>
   Architecture (WithOverrides (++) example_constraints example_pod) = Some ''arm64'' \<and>
   NodeSelector (Pod.Spec example_pod) OperatingSystemLabelKey = Some ''windows'' \<and>
   OperatingSystem (WithOverrides (++) example_constraints example_pod) = Some ''windows''"
  using WithOverrides_selector_wins [of example_pod "''us-west-2a''" "(++)" example_constraints
      "''m5.large''" "''arm64''" "''windows''"]
  by (simp add: example_pod_def label_keys)

text \<open>
  Claim C7. When the provisioner configures no architecture, no operating system, no
  zones and no instance types (a nil or empty list), and the pod's node selector has none
  of the four well-known keys, \<open>WithOverrides\<close> yields architecture \<open>amd64\<close>,
  operating system \<open>linux\<close>, and nil zones and instance types. The function has no
  error result.
\<close>

theorem WithOverrides_defaults:
  assumes "Architecture c = None" and "OperatingSystem c = None"
    and "len (Zones c) = 0" and "len (InstanceTypes c) = 0"
    and "NodeSelector (Pod.Spec pod) ZoneLabelKey = None"
    and "NodeSelector (Pod.Spec pod) InstanceTypeLabelKey = None"
    and "NodeSelector (Pod.Spec pod) ArchitectureLabelKey = None"
    and "NodeSelector (Pod.Spec pod) OperatingSystemLabelKey = None"
  shows "Architecture (WithOverrides U c pod) = Some ''amd64'' \<and>
         OperatingSystem (WithOverrides U c pod) = Some ''linux'' \<and>
         Zones (WithOverrides U c pod) = None \<and>
         InstanceTypes (WithOverrides U c pod) = None"
  using assms by (simp add: getters ArchitectureAmd64_def OperatingSystemLinux_def)

theorem WithOverrides_defaults_witness:
  "Architecture unconfigured_constraints = None \<and>
   OperatingSystem unconfigured_constraints = None \<and>
   len (Zones unconfigured_constraints) = 0 \<and>
   len (InstanceTypes unconfigured_constraints) = 0 \<and>
   NodeSelector (Pod.Spec plain_pod) ZoneLabelKey = None \<and>
   NodeSelector (Pod.Spec plain_pod) InstanceTypeLabelKey = None \<and>
   NodeSelector (Pod.Spec plain_pod) ArchitectureLabelKey = None \<and>
   NodeSelector (Pod.Spec plain_pod) OperatingSystemLabelKey = None \<and>
   Architecture (WithOverrides (++) unconfigured_constraints plain_pod) = Some ''amd64'' \<and>
   OperatingSystem (WithOverrides (++) unconfigured_constraints plain_pod) = Some ''linux'' \<and>
   Zones (WithOverrides (++) unconfigured_constraints plain_pod) = None \<and>
   InstanceTypes (WithOverrides (++) unconfigured_constraints plain_pod) = None"
proof -
  have h: "Architecture unconfigured_constraints = None"
    "OperatingSystem unconfigured_constraints = None"
    "len (Zones unconfigured_constraints) = 0"
    "len (InstanceTypes unconfigured_constraints) = 0"
    "NodeSelector (Pod.Spec plain_pod) ZoneLabelKey = None"
    "NodeSelector (Pod.Spec plain_pod) InstanceTypeLabelKey = None"
    "NodeSelector (Pod.Spec plain_pod) ArchitectureLabelKey = None"
    "NodeSelector (Pod.Spec plain_pod) OperatingSystemLabelKey = None"
    by (simp_all add: unconfigured_constraints_def plain_pod_def len_def label_keys)
  from WithOverrides_defaults [OF h, of "(++)"] h show ?thesis by simp
qed

text \<open>
  Claim C8. The \<open>Taints\<close> of the result of \<open>WithOverrides\<close> are the provisioner's
  \<open>Taints\<close>, for every constraint set and every pod, whatever the pod contains.
\<close>

theorem WithOverrides_taints_unchanged:
  "Taints (WithOverrides U c pod) = Taints c"
  by (simp add: WithOverrides_def)

theorem WithOverrides_taints_unchanged_witness:
  "Taints (WithOverrides (++) example_constraints example_pod) = Some [''dedicated=gpu:NoSchedule''] \<and>
   Taints (WithOverrides (++) example_constraints plain_pod) = Some [''dedicated=gpu:NoSchedule'']"
  using WithOverrides_taints_unchanged [of "(++)" example_constraints example_pod]
    WithOverrides_taints_unchanged [of "(++)" example_constraints plain_pod]
  by (simp add: example_constraints_def)

text \<open>
  Claim C9. When the pod's node selector has the zone key, the resolved zones are the
  one-element list of the pod's value, and likewise for the instance-type key and the
  resolved instance types. The provisioner's own list for the dimension plays no part:
  the result is the same for any two constraint sets \<open>c\<close> and \<open>c'\<close>, also when
  the pod's value is in neither list.
\<close>

theorem WithOverrides_selector_replaces_allow_set:
  "(NodeSelector (Pod.Spec pod) ZoneLabelKey = Some zone \<longrightarrow>
      Zones (WithOverrides U c pod) = Some [zone] \<and>
      Zones (WithOverrides U c' pod) = Zones (WithOverrides U c pod)) \<and>
   (NodeSelector (Pod.Spec pod) InstanceTypeLabelKey = Some instanceType \<longrightarrow>
      InstanceTypes (WithOverrides U c pod) = Some [instanceType] \<and>
      InstanceTypes (WithOverrides U c' pod) = InstanceTypes (WithOverrides U c pod))"
  by (simp add: getters)

theorem WithOverrides_selector_replaces_allow_set_witness:
  "NodeSelector (Pod.Spec example_pod) ZoneLabelKey = Some ''us-west-2a'' \<and>
   Zones example_constraints = Some [''us-east-1a'', ''us-east-1b''] \<and>
   ''us-west-2a'' \<notin> set [''us-east-1a'', ''us-east-1b''] \<and>
   Zones (WithOverrides (++) example_constraints example_pod) = Some [''us-west-2a''] \<and>
   Zones (WithOverrides (++) unconfigured_constraints example_pod) = Some [''us-west-2a''] \<and>
   NodeSelector (Pod.Spec example_pod) InstanceTypeLabelKey = Some ''m5.large'' \<and>
   InstanceTypes example_constraints = Some [''t3.micro''] \<and>
   ''m5.large'' \<notin> set [''t3.micro''] \<and>
   InstanceTypes (WithOverrides (++) example_constraints example_pod) = Some [''m5.large''] \<and>
   InstanceTypes (WithOverrides (++) unconfigured_constraints example_pod) = Some [''m5.large'']"
  using WithOverrides_selector_replaces_allow_set [of example_pod "''us-west-2a''" "(++)"
      example_constraints unconfigured_constraints "''m5.large''"]
  by (simp add: example_pod_def example_constraints_def label_keys)

section \<open>Properties of the reconcile cycle\<close>

lemmas Reconcile_unfold = Reconcile_def invoked_def traced_def traced_stage_def Errorf_def

lemmas example_unfold =
  scripted_def example_provisioner_def example_request_def Result_zero_def Second_def

text \<open>Tracing does not change what a cycle returns or what it does to the object store.\<close>

lemma Reconcile_traced:
  "fst (Reconcile IsNotFound (traced c) req (tr, w)) = fst (Reconcile IsNotFound c req w) \<and>
   snd (snd (Reconcile IsNotFound (traced c) req (tr, w))) = snd (Reconcile IsNotFound c req w)"
  by (auto simp add: Reconcile_unfold split: sum.splits prod.splits option.splits)

text \<open>One lemma for each exit of \<open>Reconcile\<close>, in the order of the source.\<close>

lemma Reconcile_fetch_error:
  "KubeClient_Get c w (NamespacedName req) = Inl err \<Longrightarrow>
   Reconcile IsNotFound c req w = ((Result_zero, if IsNotFound err then None else Some err), w) \<and>
   invoked IsNotFound c req w = []"
  by (simp add: Reconcile_unfold)

lemma Reconcile_failedToJoin_error:
  "KubeClient_Get c w (NamespacedName req) = Inr p \<Longrightarrow>
   terminateFailedToJoin (Utilization c) p w = (Some err, w1) \<Longrightarrow>
   Reconcile IsNotFound c req w =
     ((Result_zero, Some (WrapError ''terminating nodes that failed to join, '' err)), w1) \<and>
   invoked IsNotFound c req w = [TerminateFailedToJoin]"
  by (simp add: Reconcile_unfold)

lemma Reconcile_ttl_undefined:
  "KubeClient_Get c w (NamespacedName req) = Inr p \<Longrightarrow>
   terminateFailedToJoin (Utilization c) p w = (None, w1) \<Longrightarrow>
   TTLSecondsAfterEmpty (Provisioner.Spec p) = None \<Longrightarrow>
   Reconcile IsNotFound c req w = ((Result_zero, None), w1) \<and>
   invoked IsNotFound c req w = [TerminateFailedToJoin]"
  by (simp add: Reconcile_unfold)

lemma Reconcile_mark_error:
  "KubeClient_Get c w (NamespacedName req) = Inr p \<Longrightarrow>
   terminateFailedToJoin (Utilization c) p w = (None, w1) \<Longrightarrow>
   TTLSecondsAfterEmpty (Provisioner.Spec p) = Some ttl \<Longrightarrow>
   markUnderutilized (Utilization c) p w1 = (Some err, w2) \<Longrightarrow>
   Reconcile IsNotFound c req w =
     ((Result_zero, Some (WrapError ''adding ttl and underutilized label, '' err)), w2) \<and>
   invoked IsNotFound c req w = [TerminateFailedToJoin, MarkUnderutilized]"
  by (simp add: Reconcile_unfold)

lemma Reconcile_clear_error:
  "KubeClient_Get c w (NamespacedName req) = Inr p \<Longrightarrow>
   terminateFailedToJoin (Utilization c) p w = (None, w1) \<Longrightarrow>
   TTLSecondsAfterEmpty (Provisioner.Spec p) = Some ttl \<Longrightarrow>
   markUnderutilized (Utilization c) p w1 = (None, w2) \<Longrightarrow>
   clearUnderutilized (Utilization c) p w2 = (Some err, w3) \<Longrightarrow>
   Reconcile IsNotFound c req w =
     ((Result_zero, Some (WrapError ''removing ttl from node, '' err)), w3) \<and>
   invoked IsNotFound c req w = [TerminateFailedToJoin, MarkUnderutilized, ClearUnderutilized]"
  by (simp add: Reconcile_unfold)

lemma Reconcile_expired_error:
  "KubeClient_Get c w (NamespacedName req) = Inr p \<Longrightarrow>
   terminateFailedToJoin (Utilization c) p w = (None, w1) \<Longrightarrow>
   TTLSecondsAfterEmpty (Provisioner.Spec p) = Some ttl \<Longrightarrow>
   markUnderutilized (Utilization c) p w1 = (None, w2) \<Longrightarrow>
   clearUnderutilized (Utilization c) p w2 = (None, w3) \<Longrightarrow>
   terminateExpired (Utilization c) p w3 = (Some err, w4) \<Longrightarrow>
   Reconcile IsNotFound c req w =
     ((Result_zero, Some (WrapError ''marking nodes terminable, '' err)), w4) \<and>
   invoked IsNotFound c req w =
     [TerminateFailedToJoin, MarkUnderutilized, ClearUnderutilized, TerminateExpired]"
  by (simp add: Reconcile_unfold)

lemma Reconcile_all_succeed:
  "KubeClient_Get c w (NamespacedName req) = Inr p \<Longrightarrow>
   terminateFailedToJoin (Utilization c) p w = (None, w1) \<Longrightarrow>
   TTLSecondsAfterEmpty (Provisioner.Spec p) = Some ttl \<Longrightarrow>
   markUnderutilized (Utilization c) p w1 = (None, w2) \<Longrightarrow>
   clearUnderutilized (Utilization c) p w2 = (None, w3) \<Longrightarrow>
   terminateExpired (Utilization c) p w3 = (None, w4) \<Longrightarrow>
   Reconcile IsNotFound c req w = ((\<lparr> Requeue = False, RequeueAfter = 5 * Second \<rparr>, None), w4) \<and>
   invoked IsNotFound c req w =
     [TerminateFailedToJoin, MarkUnderutilized, ClearUnderutilized, TerminateExpired]"
  by (simp add: Reconcile_unfold)

lemma invoked_prefix:
  "prefix (invoked IsNotFound c req w)
     [TerminateFailedToJoin, MarkUnderutilized, ClearUnderutilized, TerminateExpired]"
  by (auto simp add: Reconcile_unfold split: sum.splits prod.splits option.splits)

lemma stage_messages_distinct:
  "distinct [''terminating nodes that failed to join, '', ''adding ttl and underutilized label, '',
     ''removing ttl from node, '', ''marking nodes terminable, '']"
  by simp

text \<open>
  Claim C4. When the fetch of the Provisioner reports not-found, \<open>Reconcile\<close> returns the
  zero result (no requeue) and a nil error, invokes no lifecycle method, and leaves the
  object store as it was.
\<close>

theorem Reconcile_not_found:
  assumes "KubeClient_Get c w (NamespacedName req) = Inl err" and "IsNotFound err"
  shows "Reconcile IsNotFound c req w = ((\<lparr> Requeue = False, RequeueAfter = 0 \<rparr>, None), w) \<and>
         invoked IsNotFound c req w = []"
  using Reconcile_fetch_error [OF assms(1), of IsNotFound] assms(2)
  by (simp add: Result_zero_def)

theorem Reconcile_not_found_witness:
  "KubeClient_Get (scripted (Inl (Err NotFound)) None None None None) 0
      (NamespacedName example_request) = Inl (Err NotFound) \<and>
   IsNotFound_api (Err NotFound) \<and>
   Reconcile IsNotFound_api (scripted (Inl (Err NotFound)) None None None None) example_request 0 =
     ((\<lparr> Requeue = False, RequeueAfter = 0 \<rparr>, None), 0) \<and>
   invoked IsNotFound_api (scripted (Inl (Err NotFound)) None None None None) example_request 0 = []"
proof -
  have h: "KubeClient_Get (scripted (Inl (Err NotFound)) None None None None) 0
      (NamespacedName example_request) = Inl (Err NotFound)" "IsNotFound_api (Err NotFound)"
    by (simp_all add: scripted_def)
  from Reconcile_not_found [where IsNotFound = IsNotFound_api, OF h] h show ?thesis by simp
qed

text \<open>
  Claim C6. A cycle in which all four lifecycle methods are invoked and which returns a
  nil error returns a result asking for a revisit after exactly 5 seconds
  (\<open>5000000000\<close> nanoseconds); nothing else conditions the requeue.
\<close>

theorem Reconcile_requeue_after_all_stages:
  assumes "invoked IsNotFound c req w =
             [TerminateFailedToJoin, MarkUnderutilized, ClearUnderutilized, TerminateExpired]"
    and "snd (fst (Reconcile IsNotFound c req w)) = None"
  shows "fst (fst (Reconcile IsNotFound c req w)) = \<lparr> Requeue = False, RequeueAfter = 5 * Second \<rparr> \<and>
         RequeueAfter (fst (fst (Reconcile IsNotFound c req w))) = 5000000000"
  using assms
  by (auto simp add: Reconcile_unfold Second_def split: sum.splits prod.splits option.splits if_splits)

theorem Reconcile_requeue_after_all_stages_witness:
  "invoked IsNotFound_api (scripted (Inr (example_provisioner (Some 30) None)) None None None None)
      example_request 0 =
     [TerminateFailedToJoin, MarkUnderutilized, ClearUnderutilized, TerminateExpired] \<and>
   snd (fst (Reconcile IsNotFound_api
      (scripted (Inr (example_provisioner (Some 30) None)) None None None None) example_request 0)) = None \<and>
   fst (fst (Reconcile IsNotFound_api
      (scripted (Inr (example_provisioner (Some 30) None)) None None None None) example_request 0)) =
     \<lparr> Requeue = False, RequeueAfter = 5000000000 \<rparr>"
proof -
  have h: "invoked IsNotFound_api (scripted (Inr (example_provisioner (Some 30) None)) None None None None)
      example_request 0 =
     [TerminateFailedToJoin, MarkUnderutilized, ClearUnderutilized, TerminateExpired]"
    "snd (fst (Reconcile IsNotFound_api
      (scripted (Inr (example_provisioner (Some 30) None)) None None None None) example_request 0)) = None"
    by (simp_all add: Reconcile_unfold example_unfold)
  from Reconcile_requeue_after_all_stages [OF h] h show ?thesis by (simp add: Second_def)
qed

text \<open>
  Claim C10. \<open>Reconcile\<close> never returns a non-nil error with a non-zero requeue delay:
  whenever the error is non-nil the result is the zero result, and whenever
  \<open>RequeueAfter\<close> is non-zero the error is nil and all four lifecycle methods were
  invoked.
\<close>

theorem Reconcile_error_excludes_requeue:
  "(snd (fst (Reconcile IsNotFound c req w)) \<noteq> None \<longrightarrow>
      fst (fst (Reconcile IsNotFound c req w)) = \<lparr> Requeue = False, RequeueAfter = 0 \<rparr>) \<and>
   (RequeueAfter (fst (fst (Reconcile IsNotFound c req w))) \<noteq> 0 \<longrightarrow>
      snd (fst (Reconcile IsNotFound c req w)) = None \<and>
      invoked IsNotFound c req w =
        [TerminateFailedToJoin, MarkUnderutilized, ClearUnderutilized, TerminateExpired])"
  by (auto simp add: Reconcile_unfold Result_zero_def split: sum.splits prod.splits option.splits if_splits)

theorem Reconcile_error_excludes_requeue_witness:
  "snd (fst (Reconcile IsNotFound_api
      (scripted (Inr (example_provisioner (Some 30) None)) None None (Some (Err Unavailable)) None)
      example_request 0)) \<noteq> None \<and>
   fst (fst (Reconcile IsNotFound_api
      (scripted (Inr (example_provisioner (Some 30) None)) None None (Some (Err Unavailable)) None)
      example_request 0)) = \<lparr> Requeue = False, RequeueAfter = 0 \<rparr> \<and>
   RequeueAfter (fst (fst (Reconcile IsNotFound_api
      (scripted (Inr (example_provisioner (Some 30) None)) None None None None) example_request 0))) \<noteq> 0 \<and>
   snd (fst (Reconcile IsNotFound_api
      (scripted (Inr (example_provisioner (Some 30) None)) None None None None) example_request 0)) = None \<and>
   invoked IsNotFound_api (scripted (Inr (example_provisioner (Some 30) None)) None None None None)
      example_request 0 =
     [TerminateFailedToJoin, MarkUnderutilized, ClearUnderutilized, TerminateExpired]"
proof -
  have e: "snd (fst (Reconcile IsNotFound_api
      (scripted (Inr (example_provisioner (Some 30) None)) None None (Some (Err Unavailable)) None)
      example_request 0)) \<noteq> None"
    by (simp add: Reconcile_unfold example_unfold)
  have r: "RequeueAfter (fst (fst (Reconcile IsNotFound_api
      (scripted (Inr (example_provisioner (Some 30) None)) None None None None) example_request 0))) \<noteq> 0"
    by (simp add: Reconcile_unfold example_unfold)
  from e r
    Reconcile_error_excludes_requeue [of IsNotFound_api
      "scripted (Inr (example_provisioner (Some 30) None)) None None (Some (Err Unavailable)) None"
      example_request 0]
    Reconcile_error_excludes_requeue [of IsNotFound_api
      "scripted (Inr (example_provisioner (Some 30) None)) None None None None" example_request 0]
  show ?thesis by blast
qed

text \<open>
  Claim C2, as stated, fails: it promises a fixed revisit interval on the path where
  \<open>ttlSecondsAfterEmpty\<close> is undefined. On that path the source returns
  \<open>reconcile.Result{}\<close>: here the fetch succeeds, the provisioner has no
  \<open>ttlSecondsAfterEmpty\<close>, the cycle returns a nil error, and the result asks for no
  revisit at all.
\<close>

theorem Reconcile_ttl_undefined_requeue_counterexample:
  "KubeClient_Get (scripted (Inr (example_provisioner None (Some 60))) None None None None) 0
      (NamespacedName example_request) = Inr (example_provisioner None (Some 60)) \<and>
   TTLSecondsAfterEmpty (Provisioner.Spec (example_provisioner None (Some 60))) = None \<and>
   snd (fst (Reconcile IsNotFound_api
      (scripted (Inr (example_provisioner None (Some 60))) None None None None) example_request 0)) = None \<and>
   RequeueAfter (fst (fst (Reconcile IsNotFound_api
      (scripted (Inr (example_provisioner None (Some 60))) None None None None) example_request 0))) = 0 \<and>
   \<not> Requeue (fst (fst (Reconcile IsNotFound_api
      (scripted (Inr (example_provisioner None (Some 60))) None None None None) example_request 0))) \<and>
   RequeueAfter (fst (fst (Reconcile IsNotFound_api
      (scripted (Inr (example_provisioner None (Some 60))) None None None None) example_request 0)))
     \<noteq> 5 * Second"
  by (simp add: Reconcile_unfold example_unfold)

text \<open>
  Claim C2, amended. When the Provisioner is fetched, has \<open>ttlSecondsAfterEmpty\<close>
  undefined, and terminate-failed-to-join succeeds, \<open>Reconcile\<close> skips the mark, clear
  and expire methods (terminate-failed-to-join is the only method invoked, and the
  object store is left as it left it) and returns success with the zero result: no
  revisit is scheduled.
\<close>

theorem Reconcile_ttl_undefined_returns_zero_result:
  assumes "KubeClient_Get c w (NamespacedName req) = Inr p"
    and "TTLSecondsAfterEmpty (Provisioner.Spec p) = None"
    and "terminateFailedToJoin (Utilization c) p w = (None, w1)"
  shows "Reconcile IsNotFound c req w = ((\<lparr> Requeue = False, RequeueAfter = 0 \<rparr>, None), w1) \<and>
         invoked IsNotFound c req w = [TerminateFailedToJoin]"
  using Reconcile_ttl_undefined [OF assms(1) assms(3) assms(2), of IsNotFound]
  by (simp add: Result_zero_def)

theorem Reconcile_ttl_undefined_returns_zero_result_witness:
  "KubeClient_Get (scripted (Inr (example_provisioner None (Some 60))) None None None None) 0
      (NamespacedName example_request) = Inr (example_provisioner None (Some 60)) \<and>
   TTLSecondsAfterEmpty (Provisioner.Spec (example_provisioner None (Some 60))) = None \<and>
   terminateFailedToJoin
      (Utilization (scripted (Inr (example_provisioner None (Some 60))) None None None None))
      (example_provisioner None (Some 60)) 0 = (None, 1) \<and>
   Reconcile IsNotFound_api (scripted (Inr (example_provisioner None (Some 60))) None None None None)
      example_request 0 = ((\<lparr> Requeue = False, RequeueAfter = 0 \<rparr>, None), 1) \<and>
   invoked IsNotFound_api (scripted (Inr (example_provisioner None (Some 60))) None None None None)
      example_request 0 = [TerminateFailedToJoin]"
proof -
  have h: "KubeClient_Get (scripted (Inr (example_provisioner None (Some 60))) None None None None) 0
      (NamespacedName example_request) = Inr (example_provisioner None (Some 60))"
    "TTLSecondsAfterEmpty (Provisioner.Spec (example_provisioner None (Some 60))) = None"
    "terminateFailedToJoin
      (Utilization (scripted (Inr (example_provisioner None (Some 60))) None None None None))
      (example_provisioner None (Some 60)) 0 = (None, 1)"
    by (simp_all add: example_unfold)
  from Reconcile_ttl_undefined_returns_zero_result [OF h, of IsNotFound_api] h
  show ?thesis by simp
qed

lemmas cluster_unfold =
  Controller_spec_def Get_spec_def terminateFailedToJoin_spec_def terminateExpired_spec_def
  owned_def ageTTLExpired_def emptyTTLExpired_def example_cluster_def old_node_def
  example_provisioner_def example_request_def

text \<open>
  Claim C3, as stated, fails. In the example cluster the provisioner defines
  \<open>ttlSecondsUntilExpired = 60\<close> and no \<open>ttlSecondsAfterEmpty\<close>, and it owns a node
  whose creation age, 1000 seconds, exceeds 60. One reconcile cycle returns success, and
  the node is still in the cluster, although terminate-expired applied to the same cluster
  would delete it: the cycle returns before terminate-expired is reached.
\<close>

theorem Reconcile_ttl_undefined_expiry_counterexample:
  "TTLSecondsAfterEmpty (Provisioner.Spec (example_provisioner None (Some 60))) = None \<and>
   TTLSecondsUntilExpired (Provisioner.Spec (example_provisioner None (Some 60))) = Some 60 \<and>
   owned (example_provisioner None (Some 60)) old_node \<and>
   Now example_cluster - CreationTimestamp old_node > 60 \<and>
   fst (Reconcile IsNotFound_api (Controller_spec 300) example_request example_cluster) =
     (\<lparr> Requeue = False, RequeueAfter = 0 \<rparr>, None) \<and>
   old_node \<in> set (Nodes (snd (Reconcile IsNotFound_api (Controller_spec 300) example_request
      example_cluster))) \<and>
   old_node \<notin> set (Nodes (snd (terminateExpired_spec (example_provisioner None (Some 60))
      example_cluster)))"
  by (simp add: Reconcile_def Result_zero_def cluster_unfold)

text \<open>
  Claim C3, amended. For every Provisioner that is fetched and has
  \<open>ttlSecondsAfterEmpty\<close> undefined, whether or not \<open>ttlSecondsUntilExpired\<close> is
  defined, a reconcile cycle invokes terminate-failed-to-join and nothing else: mark,
  clear and terminate-expired are all skipped, so the cycle performs no age-based expiry,
  and the object store is left exactly as terminate-failed-to-join leaves it.
\<close>

theorem Reconcile_ttl_undefined_skips_expiry:
  assumes "KubeClient_Get c w (NamespacedName req) = Inr p"
    and "TTLSecondsAfterEmpty (Provisioner.Spec p) = None"
  shows "invoked IsNotFound c req w = [TerminateFailedToJoin] \<and>
         TerminateExpired \<notin> set (invoked IsNotFound c req w) \<and>
         snd (Reconcile IsNotFound c req w) = snd (terminateFailedToJoin (Utilization c) p w)"
  using assms
  by (auto simp add: Reconcile_unfold split: prod.splits option.splits)

theorem Reconcile_ttl_undefined_skips_expiry_witness:
  "KubeClient_Get (Controller_spec 300) example_cluster (NamespacedName example_request) =
     Inr (example_provisioner None (Some 60)) \<and>
   TTLSecondsAfterEmpty (Provisioner.Spec (example_provisioner None (Some 60))) = None \<and>
   TTLSecondsUntilExpired (Provisioner.Spec (example_provisioner None (Some 60))) = Some 60 \<and>
   invoked IsNotFound_api (Controller_spec 300) example_request example_cluster =
     [TerminateFailedToJoin] \<and>
   snd (Reconcile IsNotFound_api (Controller_spec 300) example_request example_cluster) =
     example_cluster"
proof -
  have h: "KubeClient_Get (Controller_spec 300) example_cluster (NamespacedName example_request) =
     Inr (example_provisioner None (Some 60))"
    "TTLSecondsAfterEmpty (Provisioner.Spec (example_provisioner None (Some 60))) = None"
    by (simp_all add: cluster_unfold)
  have t: "snd (terminateFailedToJoin (Utilization (Controller_spec 300))
      (example_provisioner None (Some 60)) example_cluster) = example_cluster"
    by (simp add: cluster_unfold)
  from Reconcile_ttl_undefined_skips_expiry [OF h, of IsNotFound_api] h t
  show ?thesis by (simp add: example_provisioner_def)
qed

text \<open>
  Claim C5, as stated, fails for its first stage. When the fetch fails with an error
  other than not-found, the cycle is aborted and the error is returned as it is, not
  wrapped with any message.
\<close>

theorem Reconcile_fetch_error_unwrapped_counterexample:
  "KubeClient_Get (scripted (Inl (Err Unavailable)) None None None None) 0
      (NamespacedName example_request) = Inl (Err Unavailable) \<and>
   \<not> IsNotFound_api (Err Unavailable) \<and>
   snd (fst (Reconcile IsNotFound_api (scripted (Inl (Err Unavailable)) None None None None)
      example_request 0)) = Some (Err Unavailable) \<and>
   \<not> is_wrapped (Err Unavailable)"
  by (simp add: Reconcile_unfold example_unfold)

text \<open>
  Claim C5, amended. Within one reconcile cycle the lifecycle methods are invoked in the
  fixed order terminate-failed-to-join, mark-underutilized, clear-underutilized,
  terminate-expired, after the fetch: the methods a cycle invokes are always an initial
  part of that sequence. A failed fetch aborts the cycle before any of them, and its
  error is returned unwrapped (or dropped, when it is not-found). The first lifecycle
  method that fails aborts the cycle: no later method is invoked, the result is the zero
  result, and the error returned is the method's error wrapped with that method's own
  message; the four messages are different.
\<close>

theorem Reconcile_stage_order_and_errors:
  "prefix (invoked IsNotFound c req w)
     [TerminateFailedToJoin, MarkUnderutilized, ClearUnderutilized, TerminateExpired] \<and>
   (KubeClient_Get c w (NamespacedName req) = Inl err \<longrightarrow>
      Reconcile IsNotFound c req w = ((Result_zero, if IsNotFound err then None else Some err), w) \<and>
      invoked IsNotFound c req w = []) \<and>
   (KubeClient_Get c w (NamespacedName req) = Inr p \<and>
    terminateFailedToJoin (Utilization c) p w = (Some err, w1) \<longrightarrow>
      Reconcile IsNotFound c req w =
        ((Result_zero, Some (WrapError ''terminating nodes that failed to join, '' err)), w1) \<and>
      invoked IsNotFound c req w = [TerminateFailedToJoin]) \<and>
   (KubeClient_Get c w (NamespacedName req) = Inr p \<and>
    terminateFailedToJoin (Utilization c) p w = (None, w1) \<and>
    TTLSecondsAfterEmpty (Provisioner.Spec p) = Some ttl \<and>
    markUnderutilized (Utilization c) p w1 = (Some err, w2) \<longrightarrow>
      Reconcile IsNotFound c req w =
        ((Result_zero, Some (WrapError ''adding ttl and underutilized label, '' err)), w2) \<and>
      invoked IsNotFound c req w = [TerminateFailedToJoin, MarkUnderutilized]) \<and>
   (KubeClient_Get c w (NamespacedName req) = Inr p \<and>
    terminateFailedToJoin (Utilization c) p w = (None, w1) \<and>
    TTLSecondsAfterEmpty (Provisioner.Spec p) = Some ttl \<and>
    markUnderutilized (Utilization c) p w1 = (None, w2) \<and>
    clearUnderutilized (Utilization c) p w2 = (Some err, w3) \<longrightarrow>
      Reconcile IsNotFound c req w =
        ((Result_zero, Some (WrapError ''removing ttl from node, '' err)), w3) \<and>
      invoked IsNotFound c req w =
        [TerminateFailedToJoin, MarkUnderutilized, ClearUnderutilized]) \<and>
   (KubeClient_Get c w (NamespacedName req) = Inr p \<and>
    terminateFailedToJoin (Utilization c) p w = (None, w1) \<and>
    TTLSecondsAfterEmpty (Provisioner.Spec p) = Some ttl \<and>
    markUnderutilized (Utilization c) p w1 = (None, w2) \<and>
    clearUnderutilized (Utilization c) p w2 = (None, w3) \<and>
    terminateExpired (Utilization c) p w3 = (Some err, w4) \<longrightarrow>
      Reconcile IsNotFound c req w =
        ((Result_zero, Some (WrapError ''marking nodes terminable, '' err)), w4) \<and>
      invoked IsNotFound c req w =
        [TerminateFailedToJoin, MarkUnderutilized, ClearUnderutilized, TerminateExpired]) \<and>
   distinct [''terminating nodes that failed to join, '', ''adding ttl and underutilized label, '',
     ''removing ttl from node, '', ''marking nodes terminable, '']"
  using invoked_prefix [of IsNotFound c req w]
    Reconcile_fetch_error [of c w req err IsNotFound]
    Reconcile_failedToJoin_error [of c w req p err w1 IsNotFound]
    Reconcile_mark_error [of c w req p w1 ttl err w2 IsNotFound]
    Reconcile_clear_error [of c w req p w1 ttl w2 err w3 IsNotFound]
    Reconcile_expired_error [of c w req p w1 ttl w2 w3 err w4 IsNotFound]
    stage_messages_distinct
  by blast

theorem Reconcile_stage_order_and_errors_witness:
  "Reconcile IsNotFound_api (scripted (Inl (Err Unavailable)) None None None None) example_request 0 =
     ((Result_zero, Some (Err Unavailable)), 0) \<and>
   invoked IsNotFound_api (scripted (Inl (Err Unavailable)) None None None None) example_request 0 = [] \<and>
   Reconcile IsNotFound_api
      (scripted (Inr (example_provisioner (Some 30) None)) (Some (Err Unavailable)) None None None)
      example_request 0 =
     ((Result_zero, Some (WrapError ''terminating nodes that failed to join, '' (Err Unavailable))), 1) \<and>
   invoked IsNotFound_api
      (scripted (Inr (example_provisioner (Some 30) None)) (Some (Err Unavailable)) None None None)
      example_request 0 = [TerminateFailedToJoin] \<and>
   Reconcile IsNotFound_api
      (scripted (Inr (example_provisioner (Some 30) None)) None (Some (Err Unavailable)) None None)
      example_request 0 =
     ((Result_zero, Some (WrapError ''adding ttl and underutilized label, '' (Err Unavailable))), 2) \<and>
   invoked IsNotFound_api
      (scripted (Inr (example_provisioner (Some 30) None)) None (Some (Err Unavailable)) None None)
      example_request 0 = [TerminateFailedToJoin, MarkUnderutilized] \<and>
   Reconcile IsNotFound_api
      (scripted (Inr (example_provisioner (Some 30) None)) None None (Some (Err Unavailable)) None)
      example_request 0 =
     ((Result_zero, Some (WrapError ''removing ttl from node, '' (Err Unavailable))), 3) \<and>
   invoked IsNotFound_api
      (scripted (Inr (example_provisioner (Some 30) None)) None None (Some (Err Unavailable)) None)
      example_request 0 = [TerminateFailedToJoin, MarkUnderutilized, ClearUnderutilized] \<and>
   Reconcile IsNotFound_api
      (scripted (Inr (example_provisioner (Some 30) None)) None None None (Some (Err Unavailable)))
      example_request 0 =
     ((Result_zero, Some (WrapError ''marking nodes terminable, '' (Err Unavailable))), 4) \<and>
   invoked IsNotFound_api
      (scripted (Inr (example_provisioner (Some 30) None)) None None None (Some (Err Unavailable)))
      example_request 0 =
     [TerminateFailedToJoin, MarkUnderutilized, ClearUnderutilized, TerminateExpired]"
proof -
  let ?p = "example_provisioner (Some 30) None"
  let ?e = "Err Unavailable :: api_error error"
  have fetch: "Reconcile IsNotFound_api (scripted (Inl ?e) None None None None) example_request 0 =
      ((Result_zero, Some ?e), 0) \<and>
    invoked IsNotFound_api (scripted (Inl ?e) None None None None) example_request 0 = []"
    using Reconcile_stage_order_and_errors [where IsNotFound = IsNotFound_api
        and c = "scripted (Inl ?e) None None None None" and req = example_request and w = 0
        and err = ?e]
    by (simp add: scripted_def)
  have join: "Reconcile IsNotFound_api (scripted (Inr ?p) (Some ?e) None None None) example_request 0 =
      ((Result_zero, Some (WrapError ''terminating nodes that failed to join, '' ?e)), 1) \<and>
    invoked IsNotFound_api (scripted (Inr ?p) (Some ?e) None None None) example_request 0 =
      [TerminateFailedToJoin]"
    using Reconcile_stage_order_and_errors [where IsNotFound = IsNotFound_api
        and c = "scripted (Inr ?p) (Some ?e) None None None" and req = example_request and w = 0
        and err = ?e and p = ?p and ?w1.0 = 1]
    by (simp add: scripted_def)
  have mark: "Reconcile IsNotFound_api (scripted (Inr ?p) None (Some ?e) None None) example_request 0 =
      ((Result_zero, Some (WrapError ''adding ttl and underutilized label, '' ?e)), 2) \<and>
    invoked IsNotFound_api (scripted (Inr ?p) None (Some ?e) None None) example_request 0 =
      [TerminateFailedToJoin, MarkUnderutilized]"
    using Reconcile_stage_order_and_errors [where IsNotFound = IsNotFound_api
        and c = "scripted (Inr ?p) None (Some ?e) None None" and req = example_request and w = 0
        and err = ?e and p = ?p and ?w1.0 = 1 and ttl = 30 and ?w2.0 = 2]
    by (simp add: scripted_def example_provisioner_def)
  have clear: "Reconcile IsNotFound_api (scripted (Inr ?p) None None (Some ?e) None) example_request 0 =
      ((Result_zero, Some (WrapError ''removing ttl from node, '' ?e)), 3) \<and>
    invoked IsNotFound_api (scripted (Inr ?p) None None (Some ?e) None) example_request 0 =
      [TerminateFailedToJoin, MarkUnderutilized, ClearUnderutilized]"
    using Reconcile_stage_order_and_errors [where IsNotFound = IsNotFound_api
        and c = "scripted (Inr ?p) None None (Some ?e) None" and req = example_request and w = 0
        and err = ?e and p = ?p and ?w1.0 = 1 and ttl = 30 and ?w2.0 = 2 and ?w3.0 = 3]
    by (simp add: scripted_def example_provisioner_def)
  have expired: "Reconcile IsNotFound_api (scripted (Inr ?p) None None None (Some ?e)) example_request 0 =
      ((Result_zero, Some (WrapError ''marking nodes terminable, '' ?e)), 4) \<and>
    invoked IsNotFound_api (scripted (Inr ?p) None None None (Some ?e)) example_request 0 =
      [TerminateFailedToJoin, MarkUnderutilized, ClearUnderutilized, TerminateExpired]"
    using Reconcile_stage_order_and_errors [where IsNotFound = IsNotFound_api
        and c = "scripted (Inr ?p) None None None (Some ?e)" and req = example_request and w = 0
        and err = ?e and p = ?p and ?w1.0 = 1 and ttl = 30 and ?w2.0 = 2 and ?w3.0 = 3
        and ?w4.0 = 4]
    by (simp add: scripted_def example_provisioner_def)
  from fetch join mark clear expired show ?thesis by simp
qed

end
